theory Spec2Isabelle
  imports Main "HOL-Library.Word" "HOL-Library.AList"
begin

section \<open>AgentRegistry (AgentRegistry.h, AgentRegistry.cpp)\<close>

subsection \<open>Data\<close>

text \<open>
  \<^verbatim>\<open>struct TokenInfo { std::string address; uint64_t totalSupply; uint8_t decimals; }\<close> and
  \<^verbatim>\<open>struct AgentInfo { std::string address; std::string role; std::vector<std::string> permissions; }\<close>.
  A \<^verbatim>\<open>std::string\<close> is a sequence of bytes, which is what \<^typ>\<open>string\<close> is.
\<close>

record TokenInfo =
  address :: string
  totalSupply :: "64 word"
  decimals :: "8 word"

record AgentInfo =
  address :: string
  role :: string
  permissions :: "string list"

text \<open>
  The members of the class; a trailing underscore is not a name here, so member \<^verbatim>\<open>x_\<close>
  is the field \<open>m_x\<close>. \<^verbatim>\<open>agents_\<close> and \<^verbatim>\<open>tokens_\<close> are
  \<^verbatim>\<open>std::unordered_map\<close>s: the keys are unique and the order in which a range-for visits
  the entries is left open by the language. They are association lists here, the list order
  being the order of iteration; every statement about a loop over the map is made for every
  list, hence for every order of iteration.

  \<^verbatim>\<open>eventHandler_\<close> is a \<^verbatim>\<open>std::function<void(const std::string&, const std::string&)>\<close>,
  empty (\<open>None\<close>) until one is installed. What a handler does is outside the class: it acts
  on some world \<open>'w\<close>, and as a closure it may read the registry it captured, so it is also
  handed the agents that are visible when it is called.
\<close>

type_synonym agent_map = "(string \<times> AgentInfo) list"

type_synonym 'w AgentEventHandler = "string \<Rightarrow> string \<Rightarrow> agent_map \<Rightarrow> 'w \<Rightarrow> 'w"

record 'w AgentRegistry =
  m_configPath :: string
  m_agents :: agent_map
  m_tokens :: "(string \<times> TokenInfo) list"
  m_eventHandler :: "'w AgentEventHandler option"

subsection \<open>validateAddress\<close>

text \<open>
  \<^verbatim>\<open>static const std::regex addr_regex("^0x[0-9a-fA-F]{40}$");
  return std::regex_match(address, addr_regex);\<close>

  The fragment of the (ECMAScript) regular expressions that the pattern uses: the two
  assertions, a literal character, a bracket expression of ranges, concatenation and the
  counted repetition \<^verbatim>\<open>{n}\<close>. Nothing in it branches, so matching from a position gives at
  most one next position. A position is the number of characters consumed and the rest of the
  input.
\<close>

datatype regex =
  Bol
  | Eol
  | Lit char
  | Bracket "(char \<times> char) list"
  | Seq regex regex
  | Times regex nat

type_synonym pos = "nat \<times> string"

fun in_ranges :: "(char \<times> char) list \<Rightarrow> char \<Rightarrow> bool" where
  "in_ranges [] c = False"
| "in_ranges ((lo, hi) # rs) c =
     (((of_char lo :: nat) \<le> of_char c \<and> (of_char c :: nat) \<le> of_char hi) \<or> in_ranges rs c)"

fun rep :: "nat \<Rightarrow> (pos \<Rightarrow> pos option) \<Rightarrow> pos \<Rightarrow> pos option" where
  "rep 0 f p = Some p"
| "rep (Suc k) f p = (case f p of None \<Rightarrow> None | Some q \<Rightarrow> rep k f q)"

fun rmatch :: "regex \<Rightarrow> pos \<Rightarrow> pos option" where
  "rmatch Bol (n, s) = (if n = 0 then Some (n, s) else None)"
| "rmatch Eol (n, s) = (if s = [] then Some (n, s) else None)"
| "rmatch (Lit c) (n, s) =
     (case s of [] \<Rightarrow> None | x # xs \<Rightarrow> if x = c then Some (Suc n, xs) else None)"
| "rmatch (Bracket rs) (n, s) =
     (case s of [] \<Rightarrow> None | x # xs \<Rightarrow> if in_ranges rs x then Some (Suc n, xs) else None)"
| "rmatch (Seq a b) p = (case rmatch a p of None \<Rightarrow> None | Some q \<Rightarrow> rmatch b q)"
| "rmatch (Times r k) p = rep k (rmatch r) p"

text \<open>\<^verbatim>\<open>std::regex_match\<close>: the expression has to match the whole of the input.\<close>

definition regex_match :: "string \<Rightarrow> regex \<Rightarrow> bool" where
  "regex_match s r = (case rmatch r (0, s) of None \<Rightarrow> False | Some (n, rest) \<Rightarrow> rest = [])"

definition addr_regex :: regex where
  "addr_regex =
     Seq Bol (Seq (Lit CHR ''0'') (Seq (Lit CHR ''x'')
       (Seq (Times (Bracket [(CHR ''0'', CHR ''9''), (CHR ''a'', CHR ''f''), (CHR ''A'', CHR ''F'')]) 40)
         Eol)))"

definition validateAddress :: "string \<Rightarrow> bool" where
  "validateAddress addr = regex_match addr addr_regex"

text \<open>The hexadecimal characters, as the specification lists them.\<close>

definition hex_chars :: "char set" where
  "hex_chars = set ''0123456789abcdefABCDEF''"

subsection \<open>Registration, lookups and the event hook\<close>

text \<open>
  \<^verbatim>\<open>if (eventHandler_) { eventHandler_(agent, action); }\<close>
\<close>

definition notifyAgentEvent :: "string \<Rightarrow> string \<Rightarrow> 'w AgentRegistry \<Rightarrow> 'w \<Rightarrow> 'w" where
  "notifyAgentEvent agent action reg w =
     (case m_eventHandler reg of None \<Rightarrow> w | Some handler \<Rightarrow> handler agent action (m_agents reg) w)"

text \<open>
  \<^verbatim>\<open>if (agents_.find(name) != agents_.end()) return false;
  if (!validateAddress(info.address)) return false;
  agents_[name] = info;
  notifyAgentEvent(name, "registered");
  return true;\<close>

  The result is the returned flag, the registry and the world after the call.

  \<^verbatim>\<open>agents_[name] = info\<close> on a key that is present assigns in place. On a new key the
  container inserts, and the order in which it iterates afterwards is its own choice (it may
  put the new entry anywhere, and may rehash). That choice is the parameter \<open>keys\<close>: the
  entries are iterated in the order in which \<open>keys\<close> lists their keys, and entries whose key
  it does not list come behind, in the order they had. Every order of iteration of the new
  map is given by some \<open>keys\<close>, and no statement below depends on which.
\<close>

definition iterate_in :: "'k list \<Rightarrow> ('k \<times> 'v) list \<Rightarrow> ('k \<times> 'v) list" where
  "iterate_in keys ags =
     concat (map (\<lambda>k. filter (\<lambda>e. fst e = k) ags) (remdups keys))
       @ filter (\<lambda>e. fst e \<notin> set keys) ags"

definition index_assign :: "string list \<Rightarrow> string \<Rightarrow> AgentInfo \<Rightarrow> agent_map \<Rightarrow> agent_map" where
  "index_assign keys name info ags =
     (if map_of ags name = None then iterate_in keys (ags @ [(name, info)])
      else AList.update name info ags)"

definition registerAgent ::
  "string list \<Rightarrow> string \<Rightarrow> AgentInfo \<Rightarrow> 'w AgentRegistry \<Rightarrow> 'w
     \<Rightarrow> bool \<times> 'w AgentRegistry \<times> 'w" where
  "registerAgent keys name info reg w =
     (if map_of (m_agents reg) name \<noteq> None then (False, reg, w)
      else if \<not> validateAddress (address info) then (False, reg, w)
      else
        let reg' = reg\<lparr>m_agents := index_assign keys name info (m_agents reg)\<rparr>
        in (True, reg', notifyAgentEvent name ''registered'' reg' w))"

text \<open>
  \<^verbatim>\<open>for (const auto& [name, info] : agents_) {
      if (info.address == agentAddress) {
          return std::find(info.permissions.begin(), info.permissions.end(), permission)
                 != info.permissions.end();
      }
  }
  return false;\<close>
\<close>

fun hasPermission_loop :: "agent_map \<Rightarrow> string \<Rightarrow> string \<Rightarrow> bool" where
  "hasPermission_loop [] agentAddress permission = False"
| "hasPermission_loop ((name, info) # rest) agentAddress permission =
     (if address info = agentAddress then permission \<in> set (permissions info)
      else hasPermission_loop rest agentAddress permission)"

definition hasPermission :: "'w AgentRegistry \<Rightarrow> string \<Rightarrow> string \<Rightarrow> bool" where
  "hasPermission reg agentAddress permission =
     hasPermission_loop (m_agents reg) agentAddress permission"

definition getAgentAddress :: "'w AgentRegistry \<Rightarrow> string \<Rightarrow> string" where
  "getAgentAddress reg name =
     (case map_of (m_agents reg) name of Some info \<Rightarrow> address info | None \<Rightarrow> [])"

definition getAgentPermissions :: "'w AgentRegistry \<Rightarrow> string \<Rightarrow> string list" where
  "getAgentPermissions reg name =
     (case map_of (m_agents reg) name of Some info \<Rightarrow> permissions info | None \<Rightarrow> [])"

fun isRegisteredAgent_loop :: "agent_map \<Rightarrow> string \<Rightarrow> bool" where
  "isRegisteredAgent_loop [] addr = False"
| "isRegisteredAgent_loop ((name, info) # rest) addr =
     (if address info = addr then True else isRegisteredAgent_loop rest addr)"

definition isRegisteredAgent :: "'w AgentRegistry \<Rightarrow> string \<Rightarrow> bool" where
  "isRegisteredAgent reg addr = isRegisteredAgent_loop (m_agents reg) addr"

definition setAgentEventHandler ::
  "'w AgentEventHandler option \<Rightarrow> 'w AgentRegistry \<Rightarrow> 'w AgentRegistry" where
  "setAgentEventHandler handler reg = reg\<lparr>m_eventHandler := handler\<rparr>"

text \<open>
  Fixtures. A registry as the constructor leaves it for a configuration file whose
  \<^verbatim>\<open>agents\<close> and \<^verbatim>\<open>tokens\<close> objects are empty; a handler that does nothing but record
  each of its invocations, with the agents it could see; two agents that share one address,
  registered in either order, and a registry that holds the first of them only.
\<close>

definition empty_registry :: "'w AgentRegistry" where
  "empty_registry =
     \<lparr>AgentRegistry.m_configPath = ''agents.json'', m_agents = [], m_tokens = [],
      m_eventHandler = None\<rparr>"

definition recorder :: "(string \<times> string \<times> agent_map) list AgentEventHandler" where
  "recorder agent action visible log = log @ [(agent, action, visible)]"

definition addr_a :: string where
  "addr_a = ''0xaaaaaaaaaaaaaaaaaaaaaaaaaaaaaaaaaaaaaaaa''"

definition alice :: AgentInfo where
  "alice = \<lparr>address = addr_a, role = ''dreamer'', permissions = [''propose'']\<rparr>"

definition bob :: AgentInfo where
  "bob = \<lparr>address = addr_a, role = ''observer'', permissions = [''read'']\<rparr>"

definition alice_then_bob :: "unit AgentRegistry" where
  "alice_then_bob = empty_registry\<lparr>m_agents := [(''alice'', alice), (''bob'', bob)]\<rparr>"

definition bob_then_alice :: "unit AgentRegistry" where
  "bob_then_alice = empty_registry\<lparr>m_agents := [(''bob'', bob), (''alice'', alice)]\<rparr>"

definition with_recorder :: "(string \<times> string \<times> agent_map) list AgentRegistry" where
  "with_recorder = setAgentEventHandler (Some recorder) empty_registry"

definition only_alice :: "unit AgentRegistry" where
  "only_alice = empty_registry\<lparr>m_agents := [(''alice'', alice)]\<rparr>"

section \<open>DreamConsensus (DreamConsensus.h, DreamConsensus.cpp)\<close>

subsection \<open>The consensus library\<close>

text \<open>
  \<^verbatim>\<open>libconsensus\<close> is not part of the repository. The member functions modelled here (the
  constructor, \<^verbatim>\<open>initialize\<close>, \<^verbatim>\<open>proposeDreamBlock\<close>, the getters and the two callbacks; the
  destructor is not modelled) reach it through the calls below, and all that is kept of the
  library is the sequence of calls made into it. What the library answers is a parameter:
  whether a call throws, and what \<^verbatim>\<open>isWorking()\<close> reports, both as functions of the calls
  made before. \<^verbatim>\<open>createAgent\<close> is taken to return an agent whenever it returns.
\<close>

datatype lib_call =
  InitBLSCrypto
  | Engine_new
  | Engine_delete
  | Engine_parseTestConfigFile string
  | Engine_createAgent "64 word" "64 word"
  | Agent_onBlockProposed
  | Agent_onBlockFinalized
  | Engine_start
  | Agent_proposeBlock string

record libconsensus =
  throws :: "lib_call list \<Rightarrow> lib_call \<Rightarrow> bool"
  isWorking :: "lib_call list \<Rightarrow> bool"

text \<open>
  The only \<^verbatim>\<open>throw\<close> of the class is a \<^verbatim>\<open>std::runtime_error\<close>; an exception of the
  library passes through it.
\<close>

datatype error = runtime_error string | library_error lib_call

subsection \<open>State\<close>

text \<open>
  The members of the class: \<open>m_engine\<close> and \<open>m_agent\<close> say whether the
  \<^verbatim>\<open>unique_ptr\<close> and the \<^verbatim>\<open>shared_ptr\<close> hold an object. \<open>calls\<close> is not a
  member: it is the record of the calls made into the library so far.
\<close>

record DreamConsensus =
  m_engine :: bool
  m_agent :: bool
  m_currentHeight :: "64 word"
  m_latestBlockHash :: string
  m_configPath :: string
  m_nodeCount :: "64 word"
  m_requiredSignatures :: "64 word"
  calls :: "lib_call list"

text \<open>
  A member function that may throw returns the exception, if any, and the object as the
  exception leaves it: what was assigned before the \<^verbatim>\<open>throw\<close> stays assigned.
\<close>

type_synonym stmt = "DreamConsensus \<Rightarrow> error option \<times> DreamConsensus"

definition call :: "libconsensus \<Rightarrow> lib_call \<Rightarrow> stmt" where
  "call lib c s =
     (if throws lib (calls s) c then Some (library_error c) else None,
      s\<lparr>calls := calls s @ [c]\<rparr>)"

definition assign :: "(DreamConsensus \<Rightarrow> DreamConsensus) \<Rightarrow> stmt" where
  "assign f s = (None, f s)"

text \<open>Statements in sequence: the first exception ends the sequence.\<close>

fun block :: "stmt list \<Rightarrow> stmt" where
  "block [] s = (None, s)"
| "block (st # sts) s =
     (case st s of (Some e, s') \<Rightarrow> (Some e, s') | (None, s') \<Rightarrow> block sts s')"

subsection \<open>Member functions\<close>

text \<open>
  \<^verbatim>\<open>DreamConsensus::DreamConsensus(const std::string& configPath)
      : configPath_(configPath), currentHeight_(0), nodeCount_(0), requiredSignatures_(0) {}\<close>
  The pointers and the string are default-initialised.
\<close>

definition DreamConsensus :: "string \<Rightarrow> DreamConsensus" where
  "DreamConsensus configPath =
     \<lparr>m_engine = False, m_agent = False, m_currentHeight = 0, m_latestBlockHash = [],
      m_configPath = configPath, m_nodeCount = 0, m_requiredSignatures = 0, calls = []\<rparr>"

text \<open>\<^verbatim>\<open>consensus::initBLSCrypto();\<close>\<close>

definition initializeBLS :: "libconsensus \<Rightarrow> stmt" where
  "initializeBLS lib = call lib InitBLSCrypto"

text \<open>
  \<^verbatim>\<open>engine_ = std::make_unique<consensus::ConsensusEngine>();\<close>
  The new engine is constructed first; the assignment then releases the engine held before,
  if there is one.
\<close>

definition make_engine :: "libconsensus \<Rightarrow> stmt" where
  "make_engine lib =
     block [call lib Engine_new,
            assign (\<lambda>s. s\<lparr>m_engine := True,
                           calls := calls s @ (if m_engine s then [Engine_delete] else [])\<rparr>)]"

text \<open>
  \<^verbatim>\<open>nodeCount_ = nodeCount;
  requiredSignatures_ = requiredSignatures;
  initializeBLS();
  engine_ = std::make_unique<consensus::ConsensusEngine>();
  consensus::ConsensusExtFace::consensusConfig config;
  config.nodeCount = nodeCount_;
  config.requiredSigners = requiredSignatures_;
  engine_->parseTestConfigFile(configPath_);
  agent_ = engine_->createAgent(config);
  agent_->onBlockProposed([this](const std::string& blockHash) { ... });
  agent_->onBlockFinalized([this](uint64_t blockNumber, const std::string& blockHash) { ... });
  engine_->start();\<close>
\<close>

definition initialize :: "libconsensus \<Rightarrow> 64 word \<Rightarrow> 64 word \<Rightarrow> stmt" where
  "initialize lib nodeCount requiredSignatures =
     block [assign (\<lambda>s. s\<lparr>m_nodeCount := nodeCount\<rparr>),
            assign (\<lambda>s. s\<lparr>m_requiredSignatures := requiredSignatures\<rparr>),
            initializeBLS lib,
            make_engine lib,
            (\<lambda>s. call lib (Engine_parseTestConfigFile (m_configPath s)) s),
            (\<lambda>s. call lib (Engine_createAgent (m_nodeCount s) (m_requiredSignatures s)) s),
            assign (\<lambda>s. s\<lparr>m_agent := True\<rparr>),
            call lib Agent_onBlockProposed,
            call lib Agent_onBlockFinalized,
            call lib Engine_start]"

text \<open>\<^verbatim>\<open>std::string blockData = dreamerId + ":" + dreamData;\<close>\<close>

definition blockData :: "string \<Rightarrow> string \<Rightarrow> string" where
  "blockData dreamerId dreamData = dreamerId @ '':'' @ dreamData"

text \<open>
  \<^verbatim>\<open>if (!engine_ || !agent_) {
      throw std::runtime_error("Consensus engine not initialized");
  }
  std::string blockData = dreamerId + ":" + dreamData;
  agent_->proposeBlock(blockData);\<close>
\<close>

definition proposeDreamBlock :: "libconsensus \<Rightarrow> string \<Rightarrow> string \<Rightarrow> stmt" where
  "proposeDreamBlock lib dreamerId dreamData s =
     (if \<not> m_engine s \<or> \<not> m_agent s
      then (Some (runtime_error ''Consensus engine not initialized''), s)
      else call lib (Agent_proposeBlock (blockData dreamerId dreamData)) s)"

definition getLatestDreamBlock :: "DreamConsensus \<Rightarrow> string" where
  "getLatestDreamBlock s = m_latestBlockHash s"

text \<open>\<^verbatim>\<open>return engine_ && engine_->isWorking();\<close>\<close>

definition isConsensusRunning :: "libconsensus \<Rightarrow> DreamConsensus \<Rightarrow> bool" where
  "isConsensusRunning lib s = (m_engine s \<and> isWorking lib (calls s))"

definition getBlockHeight :: "DreamConsensus \<Rightarrow> 64 word" where
  "getBlockHeight s = m_currentHeight s"

text \<open>The two callbacks that \<^verbatim>\<open>initialize\<close> hands to the agent; the first has an empty body.\<close>

definition onBlockProposed :: "string \<Rightarrow> DreamConsensus \<Rightarrow> DreamConsensus" where
  "onBlockProposed blockHash s = s"

text \<open>
  \<^verbatim>\<open>currentHeight_ = blockNumber;
  latestBlockHash_ = blockHash;\<close>
\<close>

definition onBlockFinalized :: "64 word \<Rightarrow> string \<Rightarrow> DreamConsensus \<Rightarrow> DreamConsensus" where
  "onBlockFinalized blockNumber blockHash s =
     (s\<lparr>m_currentHeight := blockNumber\<rparr>)\<lparr>m_latestBlockHash := blockHash\<rparr>"

subsection \<open>Histories\<close>

text \<open>
  What happens to one controller over its life: calls of its public member functions by
  the application and deliveries of the two callbacks by the engine, in some order. An
  exception of a call goes to the caller; the object stays as the exception left it.
\<close>

datatype event =
  Call_initialize "64 word" "64 word"
  | Call_proposeDreamBlock string string
  | Deliver_onBlockProposed string
  | Deliver_onBlockFinalized "64 word" string

fun step :: "libconsensus \<Rightarrow> DreamConsensus \<Rightarrow> event \<Rightarrow> DreamConsensus" where
  "step lib s (Call_initialize n r) = snd (initialize lib n r s)"
| "step lib s (Call_proposeDreamBlock d x) = snd (proposeDreamBlock lib d x s)"
| "step lib s (Deliver_onBlockProposed h) = onBlockProposed h s"
| "step lib s (Deliver_onBlockFinalized n h) = onBlockFinalized n h s"

definition run :: "libconsensus \<Rightarrow> event list \<Rightarrow> DreamConsensus \<Rightarrow> DreamConsensus" where
  "run lib evs s = foldl (step lib) s evs"

text \<open>The finalizations delivered in a history, in order.\<close>

fun finalized :: "event list \<Rightarrow> (64 word \<times> string) list" where
  "finalized [] = []"
| "finalized (Deliver_onBlockFinalized n h # evs) = (n, h) # finalized evs"
| "finalized (_ # evs) = finalized evs"

text \<open>
  Fixtures: a library none of whose calls throws, working from \<^verbatim>\<open>start()\<close> on, and
  one that does not throw either but reports that it is not working.
\<close>

definition lib_ok :: libconsensus where
  "lib_ok = \<lparr>throws = (\<lambda>cs c. False), isWorking = (\<lambda>cs. Engine_start \<in> set cs)\<rparr>"

definition lib_down :: libconsensus where
  "lib_down = \<lparr>throws = (\<lambda>cs c. False), isWorking = (\<lambda>cs. False)\<rparr>"

section \<open>Properties of the registry\<close>

subsection \<open>Address validation\<close>

lemma in_ranges_hex:
  "in_ranges [(CHR ''0'', CHR ''9''), (CHR ''a'', CHR ''f''), (CHR ''A'', CHR ''F'')] c \<longleftrightarrow> c \<in> hex_chars"
  by (cases c) (simp add: hex_chars_def)

lemma rep_Bracket:
  "rep k (rmatch (Bracket rs)) (n, s) =
     (if k \<le> length s \<and> list_all (in_ranges rs) (take k s) then Some (n + k, drop k s) else None)"
proof (induction k arbitrary: n s)
  case 0 show ?case by simp
next
  case (Suc k)
  show ?case by (cases s) (simp_all add: Suc)
qed

lemma validateAddress_shape:
  "validateAddress a \<longleftrightarrow>
     (\<exists>h. a = CHR ''0'' # CHR ''x'' # h \<and> length h = 40 \<and> set h \<subseteq> hex_chars)"
proof -
  let ?rs = "[(CHR ''0'', CHR ''9''), (CHR ''a'', CHR ''f''), (CHR ''A'', CHR ''F'')]"
  have m: "validateAddress a \<longleftrightarrow>
      (\<exists>h. a = CHR ''0'' # CHR ''x'' # h \<and> length h = 40 \<and> list_all (in_ranges ?rs) h)"
    by (auto simp add: validateAddress_def regex_match_def addr_regex_def rep_Bracket
        split: list.splits option.splits if_splits)
  show ?thesis
    unfolding m by (auto simp add: list_all_iff in_ranges_hex simp del: in_ranges.simps)
qed

text \<open>
  C2. For every string \<open>a\<close>, \<open>validateAddress a\<close> holds if and only if \<open>a\<close> is the prefix
  \<open>0x\<close> followed by exactly 40 hexadecimal characters (digits, and the letters a to f in
  either case); equivalently, \<open>a\<close> has length 42, begins with \<open>0x\<close> and has only
  hexadecimal characters after it. The function is a pure function of its argument: it reads
  and writes no state.
\<close>

theorem validateAddress_iff:
  "(validateAddress a \<longleftrightarrow> (\<exists>h. a = ''0x'' @ h \<and> length h = 40 \<and> set h \<subseteq> hex_chars))
   \<and> (validateAddress a \<longleftrightarrow>
        length a = 42 \<and> take 2 a = ''0x'' \<and> set (drop 2 a) \<subseteq> hex_chars)"
proof
  show first: "validateAddress a \<longleftrightarrow> (\<exists>h. a = ''0x'' @ h \<and> length h = 40 \<and> set h \<subseteq> hex_chars)"
    by (simp add: validateAddress_shape)
  show "validateAddress a \<longleftrightarrow>
        length a = 42 \<and> take 2 a = ''0x'' \<and> set (drop 2 a) \<subseteq> hex_chars"
  proof
    assume "validateAddress a"
    then obtain h where "a = ''0x'' @ h" "length h = 40" "set h \<subseteq> hex_chars"
      using first by blast
    then show "length a = 42 \<and> take 2 a = ''0x'' \<and> set (drop 2 a) \<subseteq> hex_chars"
      by simp
  next
    assume r: "length a = 42 \<and> take 2 a = ''0x'' \<and> set (drop 2 a) \<subseteq> hex_chars"
    have "a = take 2 a @ drop 2 a" by simp
    with r have "a = ''0x'' @ drop 2 a \<and> length (drop 2 a) = 40 \<and> set (drop 2 a) \<subseteq> hex_chars"
      by simp
    then show "validateAddress a" using first by blast
  qed
qed

text \<open>
  The examples of the specification: 40 zeros are accepted, 39 are not, upper case digits are
  accepted; an upper case \<open>X\<close> in the prefix and a letter beyond \<open>f\<close> are not.
\<close>

theorem validateAddress_iff_witness:
  "validateAddress ''0x0000000000000000000000000000000000000000''
   \<and> \<not> validateAddress ''0x000000000000000000000000000000000000000''
   \<and> validateAddress ''0xABCDEF0123456789ABCDEF0123456789ABCDEFab''
   \<and> \<not> validateAddress ''0XABCDEF0123456789ABCDEF0123456789ABCDEFab''
   \<and> \<not> validateAddress ''0x000000000000000000000000000000000000000g''"
  using validateAddress_iff [of "''0x0000000000000000000000000000000000000000''"]
    validateAddress_iff [of "''0x000000000000000000000000000000000000000''"]
    validateAddress_iff [of "''0xABCDEF0123456789ABCDEF0123456789ABCDEFab''"]
    validateAddress_iff [of "''0XABCDEF0123456789ABCDEF0123456789ABCDEFab''"]
    validateAddress_iff [of "''0x000000000000000000000000000000000000000g''"]
  by (simp add: hex_chars_def)

subsection \<open>Registration\<close>

lemma map_of_filter_fst:
  "map_of (filter (\<lambda>e. P (fst e)) ags) k = (if P k then map_of ags k else None)"
  by (induction ags) auto

lemma map_of_key_blocks:
  "map_of (concat (map (\<lambda>k'. filter (\<lambda>e. fst e = k') ags) ks)) k =
     (if k \<in> set ks then map_of ags k else None)"
proof (induction ks)
  case Nil
  show ?case by simp
next
  case (Cons k' ks)
  have block: "map_of (filter (\<lambda>e. fst e = k') ags) k = (if k = k' then map_of ags k else None)"
    using map_of_filter_fst [of "\<lambda>x. x = k'" ags k] by simp
  show ?case
    using Cons.IH block by (auto simp add: map_add_def split: option.splits)
qed

lemma map_of_iterate_in: "map_of (iterate_in keys ags) = map_of ags"
proof
  fix k
  have rest: "map_of (filter (\<lambda>e. fst e \<notin> set keys) ags) k =
      (if k \<notin> set keys then map_of ags k else None)"
    using map_of_filter_fst [of "\<lambda>x. x \<notin> set keys" ags k] by simp
  show "map_of (iterate_in keys ags) k = map_of ags k"
    by (simp add: iterate_in_def map_add_def map_of_key_blocks rest split: option.splits)
qed

lemma map_of_index_assign:
  "map_of (index_assign keys name info ags) = (map_of ags)(name \<mapsto> info)"
  by (auto simp add: index_assign_def map_of_iterate_in update_conv' map_add_def fun_eq_iff
      split: option.splits)

text \<open>
  Every order of iteration of a map with unique keys is the order given by some \<open>keys\<close>:
  the keys of the entries in that order.
\<close>

lemma filter_key_single:
  "distinct (map fst ags) \<Longrightarrow> e \<in> set ags \<Longrightarrow> filter (\<lambda>e'. fst e' = fst e) ags = [e]"
proof (induction ags)
  case Nil
  then show ?case by simp
next
  case (Cons a ags)
  show ?case
  proof (cases "e = a")
    case True
    have "fst a \<notin> fst ` set ags"
      using Cons.prems(1) by simp
    then have "\<forall>e' \<in> set ags. fst e' \<noteq> fst a"
      by (metis imageI)
    then have "filter (\<lambda>e'. fst e' = fst a) ags = []"
      by (simp add: filter_empty_conv)
    with True show ?thesis by simp
  next
    case False
    with Cons.prems have "e \<in> set ags" and "fst a \<noteq> fst e"
      by auto
    with Cons show ?thesis by simp
  qed
qed

lemma iterate_in_any_order:
  assumes keys: "distinct (map fst ags)"
    and same: "set target = set ags"
    and once: "distinct target"
  shows "iterate_in (map fst target) ags = target"
proof -
  have "inj_on fst (set target)"
    using keys same by (simp add: distinct_map)
  with once have "distinct (map fst target)"
    by (simp add: distinct_map)
  then have dups: "remdups (map fst target) = map fst target"
    by simp
  have rest: "filter (\<lambda>e. fst e \<notin> set (map fst target)) ags = []"
    using same by (auto simp add: filter_empty_conv)
  have "\<forall>e \<in> set target. filter (\<lambda>e'. fst e' = fst e) ags = [e]"
    using same by (simp add: filter_key_single [OF keys])
  then have "concat (map (\<lambda>k. filter (\<lambda>e. fst e = k) ags) (map fst target)) = target"
    by (induction target) simp_all
  then show ?thesis
    by (simp only: iterate_in_def dups rest append_Nil2)
qed

lemma validateAddress_addr_a: "validateAddress addr_a"
  by (simp add: validateAddress_shape addr_a_def hex_chars_def)

text \<open>
  C3. For every name and info: if the name is already registered or the address of the info
  fails validation, \<open>registerAgent\<close> returns false, leaves the registry as it is and calls
  no handler (the world stays as it is). Otherwise it returns true, the agents become the old
  ones with the name mapped to the info and nothing else in the registry changes, and the
  installed handler is applied once, to the name, the action \<open>registered\<close> and the agents
  that already hold the new entry; with no handler installed there is nothing to call.
  After a call that returned true, a second call for the same name returns false and changes
  neither the registry nor the world.
\<close>

theorem registerAgent_spec:
  "(map_of (m_agents reg) name \<noteq> None \<or> \<not> validateAddress (address info) \<longrightarrow>
      registerAgent keys name info reg w = (False, reg, w))
   \<and> (map_of (m_agents reg) name = None \<and> validateAddress (address info) \<longrightarrow>
      (\<exists>ags. registerAgent keys name info reg w =
           (True, reg\<lparr>m_agents := ags\<rparr>,
            case m_eventHandler reg of None \<Rightarrow> w
            | Some handler \<Rightarrow> handler name ''registered'' ags w)
         \<and> map_of ags = (map_of (m_agents reg))(name \<mapsto> info)))
   \<and> (fst (registerAgent keys name info reg w) \<longrightarrow>
      registerAgent keys2 name info2 (fst (snd (registerAgent keys name info reg w)))
          (snd (snd (registerAgent keys name info reg w)))
        = (False, snd (registerAgent keys name info reg w)))"
proof (intro conjI impI)
  assume "map_of (m_agents reg) name \<noteq> None \<or> \<not> validateAddress (address info)"
  then show "registerAgent keys name info reg w = (False, reg, w)"
    by (auto simp add: registerAgent_def)
next
  assume ok: "map_of (m_agents reg) name = None \<and> validateAddress (address info)"
  let ?ags = "index_assign keys name info (m_agents reg)"
  have "registerAgent keys name info reg w =
           (True, reg\<lparr>m_agents := ?ags\<rparr>,
            case m_eventHandler reg of None \<Rightarrow> w
            | Some handler \<Rightarrow> handler name ''registered'' ?ags w)"
    using ok by (simp add: registerAgent_def notifyAgentEvent_def Let_def split: option.splits)
  moreover have "map_of ?ags = (map_of (m_agents reg))(name \<mapsto> info)"
    by (rule map_of_index_assign)
  ultimately show "\<exists>ags. registerAgent keys name info reg w =
           (True, reg\<lparr>m_agents := ags\<rparr>,
            case m_eventHandler reg of None \<Rightarrow> w
            | Some handler \<Rightarrow> handler name ''registered'' ags w)
         \<and> map_of ags = (map_of (m_agents reg))(name \<mapsto> info)"
    by blast
next
  assume t: "fst (registerAgent keys name info reg w)"
  let ?reg1 = "reg\<lparr>m_agents := index_assign keys name info (m_agents reg)\<rparr>"
  from t have ok: "map_of (m_agents reg) name = None" "validateAddress (address info)"
    by (auto simp add: registerAgent_def split: if_splits)
  then have r: "registerAgent keys name info reg w =
       (True, ?reg1, notifyAgentEvent name ''registered'' ?reg1 w)"
    by (simp add: registerAgent_def Let_def)
  have "map_of (m_agents ?reg1) name \<noteq> None"
    by (simp add: map_of_index_assign)
  then show "registerAgent keys2 name info2 (fst (snd (registerAgent keys name info reg w)))
          (snd (snd (registerAgent keys name info reg w)))
        = (False, snd (registerAgent keys name info reg w))"
    unfolding r by (simp add: registerAgent_def)
qed

text \<open>
  With the recording handler: the first registration returns true and leaves exactly one
  record, made when the entry was already there; the second returns false and adds none; an
  invalid address returns false and records nothing.
\<close>

theorem registerAgent_spec_witness:
  "registerAgent [] ''alice'' alice with_recorder []
     = (True, with_recorder\<lparr>m_agents := [(''alice'', alice)]\<rparr>,
        [(''alice'', ''registered'', [(''alice'', alice)])])
   \<and> registerAgent [] ''alice'' bob (with_recorder\<lparr>m_agents := [(''alice'', alice)]\<rparr>)
        [(''alice'', ''registered'', [(''alice'', alice)])]
     = (False, with_recorder\<lparr>m_agents := [(''alice'', alice)]\<rparr>,
        [(''alice'', ''registered'', [(''alice'', alice)])])
   \<and> registerAgent [] ''zed'' \<lparr>address = ''0xZZZ'', role = ''dreamer'', permissions = []\<rparr>
        with_recorder [] = (False, with_recorder, [])"
proof -
  have v: "validateAddress (address alice)"
    by (simp add: alice_def validateAddress_addr_a)
  have n: "map_of (m_agents with_recorder) ''alice'' = None"
    by (simp add: with_recorder_def setAgentEventHandler_def empty_registry_def)
  have z: "\<not> validateAddress (address \<lparr>address = ''0xZZZ'', role = ''dreamer'', permissions = []\<rparr>)"
    by (simp add: validateAddress_shape)
  have first: "registerAgent [] ''alice'' alice with_recorder []
     = (True, with_recorder\<lparr>m_agents := [(''alice'', alice)]\<rparr>,
        [(''alice'', ''registered'', [(''alice'', alice)])])"
    by (simp add: registerAgent_def n v Let_def notifyAgentEvent_def recorder_def)
       (simp add: with_recorder_def setAgentEventHandler_def empty_registry_def recorder_def
          index_assign_def iterate_in_def)
  show ?thesis
    using registerAgent_spec [of with_recorder "''alice''" alice "[]" "[]" "[]" bob]
      registerAgent_spec [of with_recorder "''zed''"
        "\<lparr>address = ''0xZZZ'', role = ''dreamer'', permissions = []\<rparr>" "[]" "[]"]
      v n z first
    by simp
qed

subsection \<open>Permission lookup\<close>

lemma hasPermission_loop_find:
  "hasPermission_loop ags addr perm =
     (case find (\<lambda>(name, info). address info = addr) ags of
        None \<Rightarrow> False
      | Some (name, info) \<Rightarrow> perm \<in> set (permissions info))"
  by (induction ags addr perm rule: hasPermission_loop.induct) simp_all

lemma hasPermission_loop_sound:
  "hasPermission_loop ags addr perm \<Longrightarrow>
     \<exists>(name, info) \<in> set ags. address info = addr \<and> perm \<in> set (permissions info)"
  by (induction ags addr perm rule: hasPermission_loop.induct) (auto split: if_splits)

lemma hasPermission_loop_absent:
  "\<forall>(name, info) \<in> set ags. address info \<noteq> addr \<Longrightarrow> \<not> hasPermission_loop ags addr perm"
  by (induction ags addr perm rule: hasPermission_loop.induct) auto

lemma hasPermission_loop_unique:
  "length (filter (\<lambda>(name, info). address info = addr) ags) \<le> 1 \<Longrightarrow>
   \<exists>(name, info) \<in> set ags. address info = addr \<and> perm \<in> set (permissions info) \<Longrightarrow>
   hasPermission_loop ags addr perm"
proof (induction ags addr perm rule: hasPermission_loop.induct)
  case (1 agentAddress permission)
  then show ?case by simp
next
  case (2 name info rest agentAddress permission)
  show ?case
  proof (cases "address info = agentAddress")
    case True
    with "2.prems"(1) have "filter (\<lambda>(name, info). address info = agentAddress) rest = []"
      by simp
    then have "\<forall>(n, i) \<in> set rest. address i \<noteq> agentAddress"
      by (auto simp add: filter_empty_conv)
    with "2.prems"(2) True show ?thesis by auto
  next
    case False
    with 2 show ?thesis by auto
  qed
qed

text \<open>
  C4, as amended. \<open>hasPermission reg addr perm\<close> is decided by the first agent, in the order
  of iteration, whose address is \<open>addr\<close>: it is true if and only if there is such an agent
  and the permissions of that first one contain \<open>perm\<close>. Hence it is false whenever no
  registered agent has the address; whenever it is true, some registered agent has the
  address and the permission; and when at most one registered agent has the address, it is
  true if and only if some registered agent has the address and the permission.
\<close>

theorem hasPermission_first_match:
  "hasPermission reg addr perm =
     (case find (\<lambda>(name, info). address info = addr) (m_agents reg) of
        None \<Rightarrow> False
      | Some (name, info) \<Rightarrow> perm \<in> set (permissions info))
   \<and> ((\<forall>(name, info) \<in> set (m_agents reg). address info \<noteq> addr) \<longrightarrow>
        \<not> hasPermission reg addr perm)
   \<and> (hasPermission reg addr perm \<longrightarrow>
        (\<exists>(name, info) \<in> set (m_agents reg).
            address info = addr \<and> perm \<in> set (permissions info)))
   \<and> (length (filter (\<lambda>(name, info). address info = addr) (m_agents reg)) \<le> 1 \<longrightarrow>
        (hasPermission reg addr perm \<longleftrightarrow>
          (\<exists>(name, info) \<in> set (m_agents reg).
              address info = addr \<and> perm \<in> set (permissions info))))"
  unfolding hasPermission_def
  using hasPermission_loop_find [of "m_agents reg" addr perm]
    hasPermission_loop_sound [of "m_agents reg" addr perm]
    hasPermission_loop_absent [of "m_agents reg" addr perm]
    hasPermission_loop_unique [of addr "m_agents reg" perm]
  by blast

text \<open>One agent with the address, and the two agents that share it.\<close>

theorem hasPermission_first_match_witness:
  "length (filter (\<lambda>(name, info). address info = addr_a) (m_agents only_alice)) \<le> 1
   \<and> hasPermission only_alice addr_a ''propose''
   \<and> \<not> hasPermission only_alice addr_a ''read''
   \<and> \<not> hasPermission only_alice ''0xbbbbbbbbbbbbbbbbbbbbbbbbbbbbbbbbbbbbbbbb'' ''propose''
   \<and> \<not> hasPermission bob_then_alice addr_a ''propose''"
  using hasPermission_first_match [of only_alice addr_a "''propose''"]
    hasPermission_first_match [of only_alice addr_a "''read''"]
    hasPermission_first_match [of only_alice "''0xbbbbbbbbbbbbbbbbbbbbbbbbbbbbbbbbbbbbbbbb''" "''propose''"]
    hasPermission_first_match [of bob_then_alice addr_a "''propose''"]
  by (simp add: only_alice_def bob_then_alice_def empty_registry_def alice_def bob_def addr_a_def)

text \<open>
  C4 as stated fails when two agents share an address, which \<open>registerAgent\<close> does not
  prevent. Register \<open>alice\<close>, who holds \<open>propose\<close>, and \<open>bob\<close>, who holds \<open>read\<close>, with one
  address, in either sequence. The map of the two is iterated in one of two orders, whichever
  the container chooses. If \<open>bob\<close> comes first, the answer for \<open>propose\<close> is false although
  \<open>alice\<close> is registered with the address and holds it; if \<open>alice\<close> comes first, the answer
  for \<open>read\<close> is false although \<open>bob\<close> is registered with the address and holds it. So the
  claim fails for every order of iteration of this map.
\<close>

theorem hasPermission_some_agent_counterexample:
  "registerAgent [''bob'', ''alice''] ''bob'' bob
       (fst (snd (registerAgent [''alice''] ''alice'' alice empty_registry ()))) ()
     = (True, bob_then_alice, ())
   \<and> registerAgent [''bob'', ''alice''] ''alice'' alice
       (fst (snd (registerAgent [''bob''] ''bob'' bob empty_registry ()))) ()
     = (True, bob_then_alice, ())
   \<and> map_of (m_agents bob_then_alice) ''alice'' = Some alice
   \<and> address alice = addr_a
   \<and> ''propose'' \<in> set (permissions alice)
   \<and> hasPermission bob_then_alice addr_a ''propose'' = False
   \<and> registerAgent [''alice'', ''bob''] ''bob'' bob
       (fst (snd (registerAgent [''alice''] ''alice'' alice empty_registry ()))) ()
     = (True, alice_then_bob, ())
   \<and> registerAgent [''alice'', ''bob''] ''alice'' alice
       (fst (snd (registerAgent [''bob''] ''bob'' bob empty_registry ()))) ()
     = (True, alice_then_bob, ())
   \<and> map_of (m_agents alice_then_bob) ''bob'' = Some bob
   \<and> address bob = addr_a
   \<and> ''read'' \<in> set (permissions bob)
   \<and> hasPermission alice_then_bob addr_a ''read'' = False"
proof -
  have va: "validateAddress (address alice)" and vb: "validateAddress (address bob)"
    by (simp_all add: alice_def bob_def validateAddress_addr_a)
  have r1: "registerAgent [''bob''] ''bob'' bob empty_registry () =
      (True, empty_registry\<lparr>m_agents := [(''bob'', bob)]\<rparr>, ())"
    by (simp add: registerAgent_def vb Let_def)
       (simp add: empty_registry_def index_assign_def iterate_in_def)
  have r2: "registerAgent [''alice''] ''alice'' alice empty_registry () =
      (True, empty_registry\<lparr>m_agents := [(''alice'', alice)]\<rparr>, ())"
    by (simp add: registerAgent_def va Let_def)
       (simp add: empty_registry_def index_assign_def iterate_in_def)
  have r3: "registerAgent [''bob'', ''alice''] ''alice'' alice
      (empty_registry\<lparr>m_agents := [(''bob'', bob)]\<rparr>) () = (True, bob_then_alice, ())"
    by (simp add: registerAgent_def va Let_def bob_then_alice_def index_assign_def iterate_in_def)
  have r4: "registerAgent [''bob'', ''alice''] ''bob'' bob
      (empty_registry\<lparr>m_agents := [(''alice'', alice)]\<rparr>) () = (True, bob_then_alice, ())"
    by (simp add: registerAgent_def vb Let_def bob_then_alice_def index_assign_def iterate_in_def)
  have r5: "registerAgent [''alice'', ''bob''] ''alice'' alice
      (empty_registry\<lparr>m_agents := [(''bob'', bob)]\<rparr>) () = (True, alice_then_bob, ())"
    by (simp add: registerAgent_def va Let_def alice_then_bob_def index_assign_def iterate_in_def)
  have r6: "registerAgent [''alice'', ''bob''] ''bob'' bob
      (empty_registry\<lparr>m_agents := [(''alice'', alice)]\<rparr>) () = (True, alice_then_bob, ())"
    by (simp add: registerAgent_def vb Let_def alice_then_bob_def index_assign_def iterate_in_def)
  have h1: "\<not> hasPermission bob_then_alice addr_a ''propose''"
    by (simp add: hasPermission_def bob_then_alice_def bob_def)
  have h2: "\<not> hasPermission alice_then_bob addr_a ''read''"
    by (simp add: hasPermission_def alice_then_bob_def alice_def)
  show ?thesis
    by (simp add: r1 r2 r3 r4 r5 r6 h1 h2)
       (simp add: bob_then_alice_def alice_then_bob_def alice_def bob_def)
qed

section \<open>Properties of the controller\<close>

subsection \<open>Statements in sequence\<close>

lemma block_Cons_call:
  "block (call lib c # sts) s =
     (if throws lib (calls s) c then (Some (library_error c), s\<lparr>calls := calls s @ [c]\<rparr>)
      else block sts (s\<lparr>calls := calls s @ [c]\<rparr>))"
  by (simp add: call_def)

lemma block_Cons_call_with:
  "block ((\<lambda>s. call lib (c s) s) # sts) s =
     (if throws lib (calls s) (c s)
      then (Some (library_error (c s)), s\<lparr>calls := calls s @ [c s]\<rparr>)
      else block sts (s\<lparr>calls := calls s @ [c s]\<rparr>))"
  by (simp add: call_def)

lemma block_Cons_assign: "block (assign f # sts) s = block sts (f s)"
  by (simp add: assign_def)

lemma block_Cons_make_engine:
  "block (make_engine lib # sts) s =
     (if throws lib (calls s) Engine_new
      then (Some (library_error Engine_new), s\<lparr>calls := calls s @ [Engine_new]\<rparr>)
      else block sts (s\<lparr>m_engine := True,
             calls := calls s @ [Engine_new] @ (if m_engine s then [Engine_delete] else [])\<rparr>))"
  by (simp add: make_engine_def call_def assign_def)

lemmas block_steps = block_Cons_call block_Cons_call_with block_Cons_assign block_Cons_make_engine


lemma initialize_keeps:
  "m_currentHeight (snd (initialize lib n r s)) = m_currentHeight s"
  "m_latestBlockHash (snd (initialize lib n r s)) = m_latestBlockHash s"
  "m_configPath (snd (initialize lib n r s)) = m_configPath s"
  by (simp_all add: initialize_def initializeBLS_def block_steps del: block.simps(2))



lemma initialize_no_throw:
  "\<forall>cs c. \<not> throws lib cs c \<Longrightarrow> fst (initialize lib n r s) = None"
  by (simp add: initialize_def initializeBLS_def block_steps del: block.simps(2))

lemma initialize_success:
  "fst (initialize lib n r s) = None \<longrightarrow>
     snd (initialize lib n r s) =
       s\<lparr>m_engine := True, m_agent := True, m_nodeCount := n, m_requiredSignatures := r,
         calls := calls s @ [InitBLSCrypto, Engine_new]
           @ (if m_engine s then [Engine_delete] else [])
           @ [Engine_parseTestConfigFile (m_configPath s), Engine_createAgent n r,
              Agent_onBlockProposed, Agent_onBlockFinalized, Engine_start]\<rparr>"
  by (simp add: initialize_def initializeBLS_def block_steps del: block.simps(2))

lemma proposeDreamBlock_uninitialized:
  "\<not> (m_engine s \<and> m_agent s) \<Longrightarrow>
     proposeDreamBlock lib d x s = (Some (runtime_error ''Consensus engine not initialized''), s)"
  by (auto simp add: proposeDreamBlock_def)

lemma proposeDreamBlock_initialized:
  "m_engine s \<Longrightarrow> m_agent s \<Longrightarrow>
     proposeDreamBlock lib d x s =
       (if throws lib (calls s) (Agent_proposeBlock (blockData d x))
        then Some (library_error (Agent_proposeBlock (blockData d x))) else None,
        s\<lparr>calls := calls s @ [Agent_proposeBlock (blockData d x)]\<rparr>)"
  by (simp add: proposeDreamBlock_def call_def)

lemma proposeDreamBlock_keeps:
  "m_currentHeight (snd (proposeDreamBlock lib d x s)) = m_currentHeight s"
  "m_latestBlockHash (snd (proposeDreamBlock lib d x s)) = m_latestBlockHash s"
  "m_configPath (snd (proposeDreamBlock lib d x s)) = m_configPath s"
  "m_engine (snd (proposeDreamBlock lib d x s)) = m_engine s"
  by (simp_all add: proposeDreamBlock_def call_def)





lemma step_height_hash:
  "(getBlockHeight (step lib s ev), getLatestDreamBlock (step lib s ev)) =
     (case ev of Deliver_onBlockFinalized n h \<Rightarrow> (n, h)
      | _ \<Rightarrow> (getBlockHeight s, getLatestDreamBlock s))"
  by (cases ev)
     (simp_all add: getBlockHeight_def getLatestDreamBlock_def initialize_keeps
        proposeDreamBlock_keeps onBlockProposed_def onBlockFinalized_def)

lemma run_height_hash:
  "(getBlockHeight (run lib evs s), getLatestDreamBlock (run lib evs s)) =
     (if finalized evs = [] then (getBlockHeight s, getLatestDreamBlock s)
      else last (finalized evs))"
proof (induction evs arbitrary: s)
  case Nil
  show ?case by (simp add: run_def)
next
  case (Cons ev evs)
  have "run lib (ev # evs) s = run lib evs (step lib s ev)"
    by (simp add: run_def)
  then show ?case
    using Cons.IH [of "step lib s ev"] step_height_hash [of lib s ev]
    by (cases ev) auto
qed

lemma run_height:
  "getBlockHeight (run lib evs s) =
     (if finalized evs = [] then getBlockHeight s else fst (last (finalized evs)))"
  using arg_cong [OF run_height_hash [of lib evs s], of fst] by (simp split: if_splits)

lemma run_hash:
  "getLatestDreamBlock (run lib evs s) =
     (if finalized evs = [] then getLatestDreamBlock s else snd (last (finalized evs)))"
  using arg_cong [OF run_height_hash [of lib evs s], of snd] by (simp split: if_splits)

lemma finalized_append: "finalized (evs @ evs') = finalized evs @ finalized evs'"
  by (induction evs rule: finalized.induct) simp_all

lemma run_append: "run lib (evs @ evs') s = run lib evs' (run lib evs s)"
  by (simp add: run_def)

lemma run_height_monotone:
  assumes inc: "sorted_wrt (<) (map fst (finalized (evs @ evs')))"
    and start: "finalized evs = [] \<longrightarrow> getBlockHeight s = 0"
  shows "getBlockHeight (run lib evs s) \<le> getBlockHeight (run lib (evs @ evs') s)"
proof (cases "finalized evs' = []")
  case True
  then have "getBlockHeight (run lib evs' (run lib evs s)) = getBlockHeight (run lib evs s)"
    by (simp add: run_height)
  then show ?thesis by (simp add: run_append)
next
  case new: False
  then have after: "getBlockHeight (run lib (evs @ evs') s) = fst (last (finalized evs'))"
    by (simp add: run_append run_height)
  show ?thesis
  proof (cases "finalized evs = []")
    case True
    then have "getBlockHeight (run lib evs s) = 0"
      using start by (simp add: run_height)
    then show ?thesis by simp
  next
    case False
    then have before: "getBlockHeight (run lib evs s) = fst (last (finalized evs))"
      by (simp add: run_height)
    have "\<forall>a \<in> set (map fst (finalized evs)). \<forall>b \<in> set (map fst (finalized evs')). a < b"
      using inc by (simp add: finalized_append sorted_wrt_append)
    moreover have "fst (last (finalized evs)) \<in> set (map fst (finalized evs))"
      using False by simp
    moreover have "fst (last (finalized evs')) \<in> set (map fst (finalized evs'))"
      using new by simp
    ultimately have "fst (last (finalized evs)) < fst (last (finalized evs'))"
      by blast
    then show ?thesis by (simp add: before after)
  qed
qed

subsection \<open>Initialisation\<close>


lemma DreamConsensus_sel:
  "m_engine (DreamConsensus path) = False"
  "m_agent (DreamConsensus path) = False"
  "m_currentHeight (DreamConsensus path) = 0"
  "m_latestBlockHash (DreamConsensus path) = []"
  "m_configPath (DreamConsensus path) = path"
  "calls (DreamConsensus path) = []"
  by (simp_all add: DreamConsensus_def)

lemma lib_ok_no_throw: "\<forall>cs c. \<not> throws lib_ok cs c"
  by (simp add: lib_ok_def)

lemma lib_down_no_throw: "\<forall>cs c. \<not> throws lib_down cs c"
  by (simp add: lib_down_def)

lemma initialize_fresh:
  "\<forall>cs c. \<not> throws lib cs c \<Longrightarrow>
     initialize lib n r (DreamConsensus path) =
       (None, \<lparr>m_engine = True, m_agent = True, m_currentHeight = 0, m_latestBlockHash = [],
          m_configPath = path, m_nodeCount = n, m_requiredSignatures = r,
          calls = [InitBLSCrypto, Engine_new, Engine_parseTestConfigFile path,
                   Engine_createAgent n r, Agent_onBlockProposed, Agent_onBlockFinalized,
                   Engine_start]\<rparr>)"
proof -
  assume nt: "\<forall>cs c. \<not> throws lib cs c"
  have ok: "fst (initialize lib n r (DreamConsensus path)) = None"
    using nt by (rule initialize_no_throw)
  have "snd (initialize lib n r (DreamConsensus path)) =
       \<lparr>m_engine = True, m_agent = True, m_currentHeight = 0, m_latestBlockHash = [],
          m_configPath = path, m_nodeCount = n, m_requiredSignatures = r,
          calls = [InitBLSCrypto, Engine_new, Engine_parseTestConfigFile path,
                   Engine_createAgent n r, Agent_onBlockProposed, Agent_onBlockFinalized,
                   Engine_start]\<rparr>"
    by (simp add: initialize_success [rule_format, OF ok]) (simp add: DreamConsensus_def)
  with ok show ?thesis by (simp add: prod_eq_iff)
qed







subsection \<open>Proposals\<close>

text \<open>
  C8, as amended. \<open>proposeDreamBlock\<close> raises its exception, the \<open>runtime_error\<close>
  \<open>Consensus engine not initialized\<close>, exactly when the engine or the agent is not set, and
  then nothing is submitted and the controller is unchanged; in particular so for any call
  on a new controller, before \<open>initialize\<close>. When both are set, whether the engine reports
  that it is working or not, it hands the proposer id, a colon and the data to the agent's
  \<open>proposeBlock\<close> once, changes nothing else (in particular neither the height nor the latest
  hash, which only a finalization changes), and returns normally unless that call throws.
\<close>

theorem proposeDreamBlock_guard:
  "(fst (proposeDreamBlock lib d x s) = Some (runtime_error ''Consensus engine not initialized'')
      \<longleftrightarrow> \<not> (m_engine s \<and> m_agent s))
   \<and> (\<not> (m_engine s \<and> m_agent s) \<longrightarrow> snd (proposeDreamBlock lib d x s) = s)
   \<and> (m_engine s \<and> m_agent s \<longrightarrow>
        snd (proposeDreamBlock lib d x s) = s\<lparr>calls := calls s @ [Agent_proposeBlock (d @ '':'' @ x)]\<rparr>
        \<and> (\<not> throws lib (calls s) (Agent_proposeBlock (d @ '':'' @ x)) \<longrightarrow>
             fst (proposeDreamBlock lib d x s) = None))
   \<and> proposeDreamBlock lib d x (DreamConsensus path) =
        (Some (runtime_error ''Consensus engine not initialized''), DreamConsensus path)"
proof -
  have fresh: "proposeDreamBlock lib d x (DreamConsensus path) =
        (Some (runtime_error ''Consensus engine not initialized''), DreamConsensus path)"
    by (simp add: proposeDreamBlock_uninitialized DreamConsensus_sel)
  show ?thesis
  proof (cases "m_engine s \<and> m_agent s")
    case True
    then have "proposeDreamBlock lib d x s =
       (if throws lib (calls s) (Agent_proposeBlock (blockData d x))
        then Some (library_error (Agent_proposeBlock (blockData d x))) else None,
        s\<lparr>calls := calls s @ [Agent_proposeBlock (blockData d x)]\<rparr>)"
      by (simp add: proposeDreamBlock_initialized)
    with True fresh show ?thesis by (simp add: blockData_def)
  next
    case False
    then have "proposeDreamBlock lib d x s =
        (Some (runtime_error ''Consensus engine not initialized''), s)"
      by (rule proposeDreamBlock_uninitialized)
    with False fresh show ?thesis by auto
  qed
qed

text \<open>
  A proposal before and after \<open>initialize\<close>.
\<close>

theorem proposeDreamBlock_guard_witness:
  "\<not> (m_engine (DreamConsensus ''net.json'') \<and> m_agent (DreamConsensus ''net.json''))
   \<and> proposeDreamBlock lib_ok ''dreamer'' ''dream'' (DreamConsensus ''net.json'') =
        (Some (runtime_error ''Consensus engine not initialized''), DreamConsensus ''net.json'')
   \<and> m_engine (snd (initialize lib_ok 4 3 (DreamConsensus ''net.json'')))
   \<and> m_agent (snd (initialize lib_ok 4 3 (DreamConsensus ''net.json'')))
   \<and> fst (proposeDreamBlock lib_ok ''dreamer'' ''dream''
        (snd (initialize lib_ok 4 3 (DreamConsensus ''net.json'')))) = None
   \<and> calls (snd (proposeDreamBlock lib_ok ''dreamer'' ''dream''
        (snd (initialize lib_ok 4 3 (DreamConsensus ''net.json''))))) =
        [InitBLSCrypto, Engine_new, Engine_parseTestConfigFile ''net.json'',
         Engine_createAgent 4 3, Agent_onBlockProposed, Agent_onBlockFinalized, Engine_start,
         Agent_proposeBlock ''dreamer:dream'']"
  using proposeDreamBlock_guard [of lib_ok "''dreamer''" "''dream''" "DreamConsensus ''net.json''" "''net.json''"]
    proposeDreamBlock_guard [of lib_ok "''dreamer''" "''dream''"
      "snd (initialize lib_ok 4 3 (DreamConsensus ''net.json''))" "''net.json''"]
    lib_ok_no_throw
  by (simp add: initialize_fresh [OF lib_ok_no_throw] DreamConsensus_sel)

text \<open>
  C8 as stated fails: the guard is on the two pointers, not on what the engine reports. After
  an \<open>initialize\<close> that returned normally, with an engine that reports that it is not
  working, \<open>isConsensusRunning\<close> is false, yet \<open>proposeDreamBlock\<close> returns normally and the
  block is handed to the agent.
\<close>

theorem proposeDreamBlock_not_running_counterexample:
  "fst (initialize lib_down 4 3 (DreamConsensus ''net.json'')) = None
   \<and> isConsensusRunning lib_down (snd (initialize lib_down 4 3 (DreamConsensus ''net.json''))) = False
   \<and> fst (proposeDreamBlock lib_down ''dreamer'' ''dream''
        (snd (initialize lib_down 4 3 (DreamConsensus ''net.json'')))) = None
   \<and> calls (snd (proposeDreamBlock lib_down ''dreamer'' ''dream''
        (snd (initialize lib_down 4 3 (DreamConsensus ''net.json''))))) =
        [InitBLSCrypto, Engine_new, Engine_parseTestConfigFile ''net.json'',
         Engine_createAgent 4 3, Agent_onBlockProposed, Agent_onBlockFinalized, Engine_start,
         Agent_proposeBlock ''dreamer:dream'']"
  by (simp add: initialize_fresh [OF lib_down_no_throw] proposeDreamBlock_initialized
      isConsensusRunning_def blockData_def)
     (simp add: lib_down_def)


text \<open>
  C1, as amended. \<open>proposeDreamBlock\<close> checks no permission; the controller holds no
  registry. For every proposer id and data and every registry: when the engine and the agent
  are set, the payload is handed to the agent's \<open>proposeBlock\<close> also if the registry denies
  \<open>propose\<close> for the proposer's address, and the call raises no exception of its own. The
  only payloads that do not reach the engine are those proposed while the engine or the agent
  is not set.
\<close>

theorem proposeDreamBlock_no_authorization:
  "(m_engine s \<and> m_agent s
      \<and> \<not> hasPermission reg (getAgentAddress reg proposerId) ''propose'' \<longrightarrow>
        calls (snd (proposeDreamBlock lib proposerId dreamData s)) =
          calls s @ [Agent_proposeBlock (proposerId @ '':'' @ dreamData)]
        \<and> (\<forall>msg. fst (proposeDreamBlock lib proposerId dreamData s) \<noteq> Some (runtime_error msg)))
   \<and> (\<not> (m_engine s \<and> m_agent s) \<longrightarrow>
        calls (snd (proposeDreamBlock lib proposerId dreamData s)) = calls s)"
proof (cases "m_engine s \<and> m_agent s")
  case True
  then have "proposeDreamBlock lib proposerId dreamData s =
       (if throws lib (calls s) (Agent_proposeBlock (blockData proposerId dreamData))
        then Some (library_error (Agent_proposeBlock (blockData proposerId dreamData))) else None,
        s\<lparr>calls := calls s @ [Agent_proposeBlock (blockData proposerId dreamData)]\<rparr>)"
    by (simp add: proposeDreamBlock_initialized)
  with True show ?thesis by (simp add: blockData_def)
next
  case False
  then have "proposeDreamBlock lib proposerId dreamData s =
        (Some (runtime_error ''Consensus engine not initialized''), s)"
    by (rule proposeDreamBlock_uninitialized)
  with False show ?thesis by auto
qed

text \<open>
  A proposer that the registry does not know, after and before \<open>initialize\<close>.
\<close>

theorem proposeDreamBlock_no_authorization_witness:
  "m_engine (snd (initialize lib_ok 4 3 (DreamConsensus ''net.json'')))
   \<and> m_agent (snd (initialize lib_ok 4 3 (DreamConsensus ''net.json'')))
   \<and> \<not> hasPermission only_alice (getAgentAddress only_alice ''mallory'') ''propose''
   \<and> calls (snd (proposeDreamBlock lib_ok ''mallory'' ''dream''
        (snd (initialize lib_ok 4 3 (DreamConsensus ''net.json''))))) =
        [InitBLSCrypto, Engine_new, Engine_parseTestConfigFile ''net.json'',
         Engine_createAgent 4 3, Agent_onBlockProposed, Agent_onBlockFinalized, Engine_start,
         Agent_proposeBlock ''mallory:dream'']
   \<and> \<not> (m_engine (DreamConsensus ''net.json'') \<and> m_agent (DreamConsensus ''net.json''))
   \<and> calls (snd (proposeDreamBlock lib_ok ''mallory'' ''dream'' (DreamConsensus ''net.json''))) = []"
  using proposeDreamBlock_no_authorization [of "snd (initialize lib_ok 4 3 (DreamConsensus ''net.json''))"
      only_alice "''mallory''" lib_ok "''dream''"]
    proposeDreamBlock_no_authorization [of "DreamConsensus ''net.json''"
      only_alice "''mallory''" lib_ok "''dream''"]
  by (simp add: initialize_fresh [OF lib_ok_no_throw] DreamConsensus_sel
      hasPermission_def getAgentAddress_def only_alice_def empty_registry_def alice_def addr_a_def)

text \<open>
  C1 as stated fails: \<open>mallory\<close> is not registered, the registry denies \<open>propose\<close> for the
  address her name resolves to, and on an initialised controller her proposal returns
  normally, with \<open>mallory:dream\<close> handed to the agent.
\<close>

theorem proposeDreamBlock_unauthorized_counterexample:
  "map_of (m_agents only_alice) ''mallory'' = None
   \<and> hasPermission only_alice (getAgentAddress only_alice ''mallory'') ''propose'' = False
   \<and> proposeDreamBlock lib_ok ''mallory'' ''dream''
        (snd (initialize lib_ok 4 3 (DreamConsensus ''net.json''))) =
       (None, \<lparr>m_engine = True, m_agent = True, m_currentHeight = 0, m_latestBlockHash = [],
          m_configPath = ''net.json'', m_nodeCount = 4, m_requiredSignatures = 3,
          calls = [InitBLSCrypto, Engine_new, Engine_parseTestConfigFile ''net.json'',
                   Engine_createAgent 4 3, Agent_onBlockProposed, Agent_onBlockFinalized,
                   Engine_start, Agent_proposeBlock ''mallory:dream'']\<rparr>)"
  by (simp add: initialize_fresh [OF lib_ok_no_throw] proposeDreamBlock_initialized
      lib_ok_no_throw blockData_def hasPermission_def getAgentAddress_def only_alice_def
      empty_registry_def alice_def addr_a_def)

lemma blockData_split:
  "CHR '':'' \<notin> set dreamerId \<Longrightarrow>
     takeWhile (\<lambda>c. c \<noteq> CHR '':'') (blockData dreamerId dreamData) = dreamerId
     \<and> dropWhile (\<lambda>c. c \<noteq> CHR '':'') (blockData dreamerId dreamData) = CHR '':'' # dreamData"
  by (induction dreamerId) (auto simp add: blockData_def)

subsection \<open>The block data\<close>

text \<open>
  C7, as amended. The blob is the proposer id, a colon and the payload, with no escaping.
  Among proposer ids that contain no colon the encoding is unambiguous: two pairs have the
  same blob if and only if they are the same pair, whatever the payloads contain.
\<close>

theorem blockData_injective_without_colon:
  assumes "CHR '':'' \<notin> set id1" and "CHR '':'' \<notin> set id2"
  shows "blockData id1 payload1 = blockData id2 payload2 \<longleftrightarrow> id1 = id2 \<and> payload1 = payload2"
proof
  assume eq: "blockData id1 payload1 = blockData id2 payload2"
  note split1 = blockData_split [OF assms(1), of payload1]
  note split2 = blockData_split [OF assms(2), of payload2]
  have "takeWhile (\<lambda>c. c \<noteq> CHR '':'') (blockData id1 payload1) =
        takeWhile (\<lambda>c. c \<noteq> CHR '':'') (blockData id2 payload2)"
    by (simp only: eq)
  then have ids: "id1 = id2"
    unfolding conjunct1 [OF split1] conjunct1 [OF split2] .
  have "dropWhile (\<lambda>c. c \<noteq> CHR '':'') (blockData id1 payload1) =
        dropWhile (\<lambda>c. c \<noteq> CHR '':'') (blockData id2 payload2)"
    by (simp only: eq)
  then have "CHR '':'' # payload1 = CHR '':'' # payload2"
    unfolding conjunct2 [OF split1] conjunct2 [OF split2] .
  with ids show "id1 = id2 \<and> payload1 = payload2"
    by simp
next
  assume "id1 = id2 \<and> payload1 = payload2"
  then show "blockData id1 payload1 = blockData id2 payload2" by simp
qed

text \<open>
  Two ids without a colon, and payloads with one.
\<close>

theorem blockData_injective_without_colon_witness:
  "CHR '':'' \<notin> set ''alice'' \<and> CHR '':'' \<notin> set ''bob''
   \<and> blockData ''alice'' ''a:b'' \<noteq> blockData ''bob'' ''a:b''
   \<and> blockData ''alice'' ''a:b'' \<noteq> blockData ''alice'' ''a:c''
   \<and> blockData ''alice'' ''a:b'' = ''alice:a:b''"
  using blockData_injective_without_colon [of "''alice''" "''bob''" "''a:b''" "''a:b''"]
    blockData_injective_without_colon [of "''alice''" "''alice''" "''a:b''" "''a:c''"]
  by (simp add: blockData_def)

text \<open>
  C7 as stated fails: a colon may appear in the proposer id, and then two different pairs have
  the same blob, so that the two proposals are the same call into the engine.
\<close>

theorem blockData_ambiguous_counterexample:
  "(''a:b'', ''c'') \<noteq> (''a'', ''b:c'')
   \<and> blockData ''a:b'' ''c'' = blockData ''a'' ''b:c''
   \<and> proposeDreamBlock lib_ok ''a:b'' ''c'' (snd (initialize lib_ok 4 3 (DreamConsensus ''net.json'')))
     = proposeDreamBlock lib_ok ''a'' ''b:c'' (snd (initialize lib_ok 4 3 (DreamConsensus ''net.json'')))
   \<and> last (calls (snd (proposeDreamBlock lib_ok ''a:b'' ''c''
        (snd (initialize lib_ok 4 3 (DreamConsensus ''net.json''))))))
     = Agent_proposeBlock ''a:b:c''"
  by (simp add: initialize_fresh [OF lib_ok_no_throw] proposeDreamBlock_initialized blockData_def)

subsection \<open>Finalization\<close>

text \<open>
  C9. Take any history of a new controller: calls of \<open>initialize\<close> and \<open>proposeDreamBlock\<close>,
  failing or not, and deliveries of the two callbacks. The two getters are total functions of
  the state. As long as no finalization has been delivered, the height is 0 and the latest
  block is the empty string. Otherwise they are the number and the hash of the last
  finalization delivered; in particular right after a delivery of \<open>(n, h)\<close> they are \<open>n\<close>
  and \<open>h\<close>. And if the finalizations of a history come with strictly increasing numbers,
  the height observed after a part of the history is at most the height observed later.
\<close>

theorem finalization_tracking:
  "(finalized evs = [] \<longrightarrow>
      getBlockHeight (run lib evs (DreamConsensus path)) = 0
      \<and> getLatestDreamBlock (run lib evs (DreamConsensus path)) = [])
   \<and> (finalized evs \<noteq> [] \<longrightarrow>
      getBlockHeight (run lib evs (DreamConsensus path)) = fst (last (finalized evs))
      \<and> getLatestDreamBlock (run lib evs (DreamConsensus path)) = snd (last (finalized evs)))
   \<and> getBlockHeight (run lib (evs @ [Deliver_onBlockFinalized n h]) (DreamConsensus path)) = n
   \<and> getLatestDreamBlock (run lib (evs @ [Deliver_onBlockFinalized n h]) (DreamConsensus path)) = h
   \<and> (sorted_wrt (<) (map fst (finalized (evs @ evs'))) \<longrightarrow>
      getBlockHeight (run lib evs (DreamConsensus path))
        \<le> getBlockHeight (run lib (evs @ evs') (DreamConsensus path)))"
proof -
  have zero: "getBlockHeight (DreamConsensus path) = 0"
    and empty: "getLatestDreamBlock (DreamConsensus path) = []"
    by (simp_all add: getBlockHeight_def getLatestDreamBlock_def DreamConsensus_sel)
  have mono: "getBlockHeight (run lib evs (DreamConsensus path))
        \<le> getBlockHeight (run lib (evs @ evs') (DreamConsensus path))"
    if "sorted_wrt (<) (map fst (finalized (evs @ evs')))"
    using that zero by (intro run_height_monotone) simp_all
  show ?thesis
    using mono by (simp add: run_height run_hash zero empty finalized_append)
qed

text \<open>
  Nothing finalized after an \<open>initialize\<close> and a proposal; then finalizations 1, 2 and 3.
\<close>

theorem finalization_tracking_witness:
  "finalized [Call_initialize 4 3, Call_proposeDreamBlock ''dreamer'' ''dream''] = []
   \<and> getBlockHeight (run lib_ok [Call_initialize 4 3, Call_proposeDreamBlock ''dreamer'' ''dream'']
        (DreamConsensus ''net.json'')) = 0
   \<and> getLatestDreamBlock (run lib_ok [Call_initialize 4 3, Call_proposeDreamBlock ''dreamer'' ''dream'']
        (DreamConsensus ''net.json'')) = []
   \<and> sorted_wrt (<) (map fst (finalized ([Call_initialize 4 3, Deliver_onBlockFinalized 1 ''h1'',
          Deliver_onBlockFinalized 2 ''h2''] @ [Deliver_onBlockProposed ''p'', Deliver_onBlockFinalized 3 ''h3''])))
   \<and> getBlockHeight (run lib_ok [Call_initialize 4 3, Deliver_onBlockFinalized 1 ''h1'',
          Deliver_onBlockFinalized 2 ''h2''] (DreamConsensus ''net.json'')) = 2
   \<and> getLatestDreamBlock (run lib_ok [Call_initialize 4 3, Deliver_onBlockFinalized 1 ''h1'',
          Deliver_onBlockFinalized 2 ''h2''] (DreamConsensus ''net.json'')) = ''h2''
   \<and> getBlockHeight (run lib_ok ([Call_initialize 4 3, Deliver_onBlockFinalized 1 ''h1'',
          Deliver_onBlockFinalized 2 ''h2''] @ [Deliver_onBlockProposed ''p'', Deliver_onBlockFinalized 3 ''h3''])
          (DreamConsensus ''net.json'')) = 3"
  using finalization_tracking [of "[Call_initialize 4 3, Call_proposeDreamBlock ''dreamer'' ''dream'']"
      lib_ok "''net.json''"]
    finalization_tracking [of "[Call_initialize 4 3, Deliver_onBlockFinalized 1 ''h1'',
          Deliver_onBlockFinalized 2 ''h2'']" lib_ok "''net.json''" 3 "''h3''"
          "[Deliver_onBlockProposed ''p'', Deliver_onBlockFinalized 3 ''h3'']"]
  by (simp add: run_height run_hash)

text \<open>
  C10. For every state, number \<open>n\<close> and hash \<open>h\<close>, after \<open>onBlockFinalized n h\<close> the height is
  \<open>n\<close> and the latest block is \<open>h\<close>, whatever they were: no order is enforced, and a
  delivery with a number below the current height lowers the height.
\<close>

theorem onBlockFinalized_overwrites:
  "getBlockHeight (onBlockFinalized n h s) = n
   \<and> getLatestDreamBlock (onBlockFinalized n h s) = h
   \<and> (n < getBlockHeight s \<longrightarrow> getBlockHeight (onBlockFinalized n h s) < getBlockHeight s)"
  by (simp add: onBlockFinalized_def getBlockHeight_def getLatestDreamBlock_def)

text \<open>
  A finalization of 3 delivered after one of 5.
\<close>

theorem onBlockFinalized_overwrites_witness:
  "(3 :: 64 word) < getBlockHeight (onBlockFinalized 5 ''h5'' (DreamConsensus ''net.json''))
   \<and> getBlockHeight (onBlockFinalized 3 ''h3'' (onBlockFinalized 5 ''h5'' (DreamConsensus ''net.json''))) = 3
   \<and> getLatestDreamBlock (onBlockFinalized 3 ''h3'' (onBlockFinalized 5 ''h5'' (DreamConsensus ''net.json''))) = ''h3''
   \<and> getBlockHeight (onBlockFinalized 3 ''h3'' (onBlockFinalized 5 ''h5'' (DreamConsensus ''net.json'')))
       < getBlockHeight (onBlockFinalized 5 ''h5'' (DreamConsensus ''net.json''))"
  using onBlockFinalized_overwrites [of 3 "''h3''" "onBlockFinalized 5 ''h5'' (DreamConsensus ''net.json'')"]
    onBlockFinalized_overwrites [of 5 "''h5''" "DreamConsensus ''net.json''"]
  by simp

end
